theory Spec2Isabelle
  imports Complex_Main
begin

section \<open>Python values used by app.py\<close>

text \<open>
  Exceptions are values. The text carried by each constructor is what \<open>str(e)\<close> gives.
  \<open>FileNotFoundError\<close> and \<open>IndexError\<close> are the two subclasses of \<open>Exception\<close> that the
  program tells apart or raises itself; every other exception is \<open>OtherException\<close>.
\<close>

datatype pyexn = FileNotFoundError string | IndexError string | OtherException string

fun exn_str :: "pyexn \<Rightarrow> string" where
  "exn_str (FileNotFoundError msg) = msg"
| "exn_str (IndexError msg) = msg"
| "exn_str (OtherException msg) = msg"

fun is_FileNotFoundError :: "pyexn \<Rightarrow> bool" where
  "is_FileNotFoundError (FileNotFoundError msg) = True"
| "is_FileNotFoundError (IndexError msg) = False"
| "is_FileNotFoundError (OtherException msg) = False"

text \<open>
  A binary64 value: \<open>Finite s m e\<close> is \<open>(-1)^s * m * 2^e\<close>. The 53-bit significands and
  the exponent range of the format are produced by \<open>round_to_float64\<close> below.
\<close>

datatype float64 = Finite bool nat int | Infinity bool | NaN

fun bitlen :: "nat \<Rightarrow> nat" where
  "bitlen n = (if n = 0 then 0 else Suc (bitlen (n div 2)))"

text \<open>The integer nearest to \<open>a / b\<close>, a tie going to the even neighbour.\<close>

definition round_half_even :: "nat \<Rightarrow> nat \<Rightarrow> nat" where
  "round_half_even a b =
     (let q = a div b; r = a mod b
      in if b < 2 * r \<or> (2 * r = b \<and> odd q) then q + 1 else q)"

text \<open>
  Rounding the exact value \<open>m * 2^e\<close> to binary64 (round to nearest, ties to even):
  at most 53 significant bits, no bit below \<open>2^-1074\<close>, overflow to infinity.
\<close>

definition round_to_float64 :: "bool \<Rightarrow> nat \<Rightarrow> int \<Rightarrow> float64" where
  "round_to_float64 s m e =
     (let k = nat (max (int (bitlen m) - 53) (- 1074 - e));
          m' = round_half_even m (2 ^ k);
          e' = e + int k
      in if m' \<noteq> 0 \<and> 1024 < int (bitlen m') + e' then Infinity s else Finite s m' e')"

text \<open>The C statement \<open>val *= 100\<close> that the \<open>%\<close> presentation type performs.\<close>

fun float_mul100 :: "float64 \<Rightarrow> float64" where
  "float_mul100 (Finite s m e) = round_to_float64 s (m * 100) e"
| "float_mul100 (Infinity s) = Infinity s"
| "float_mul100 NaN = NaN"

definition digit_char :: "nat \<Rightarrow> char" where
  "digit_char d = ''0123456789'' ! (d mod 10)"

fun dec :: "nat \<Rightarrow> string" where
  "dec n = (if n < 10 then [digit_char n] else dec (n div 10) @ [digit_char (n mod 10)])"

fun frac_digits :: "nat \<Rightarrow> nat \<Rightarrow> string" where
  "frac_digits k n =
     (if k = 0 then [] else frac_digits (k - 1) (n div 10) @ [digit_char (n mod 10)])"

text \<open>
  \<open>format(x, '.<prec>f')\<close>: the exact value of the double, correctly rounded to \<open>prec\<close>
  decimals (ties to even), the sign of the double kept.
\<close>

fun format_f :: "nat \<Rightarrow> float64 \<Rightarrow> string" where
  "format_f prec (Finite s m e) =
     (let n = (if 0 \<le> e then m * 2 ^ nat e * 10 ^ prec
               else round_half_even (m * 10 ^ prec) (2 ^ nat (- e)))
      in (if s then ''-'' else []) @ dec (n div 10 ^ prec) @
         (if prec = 0 then [] else ''.'' @ frac_digits prec (n mod 10 ^ prec)))"
| "format_f prec (Infinity s) = (if s then ''-inf'' else ''inf'')"
| "format_f prec NaN = ''nan''"

text \<open>\<open>format(x, '.<prec>%')\<close>, the format of \<open>f"{probability:.2%}"\<close> with \<open>prec = 2\<close>.\<close>

definition format_percent :: "nat \<Rightarrow> float64 \<Rightarrow> string" where
  "format_percent prec x = format_f prec (float_mul100 x) @ ''%''"

text \<open>\<open>xs[i]\<close> for a non-negative index.\<close>

definition index :: "'a list \<Rightarrow> nat \<Rightarrow> pyexn + 'a" where
  "index xs i = (if i < length xs then Inr (xs ! i) else Inl (IndexError ''index out of bounds''))"

section \<open>Constants\<close>

definition SCALER_FILENAME :: string where
  "SCALER_FILENAME = ''scaler.joblib''"

definition MODEL_FILENAME :: string where
  "MODEL_FILENAME = ''random_forest_model.joblib''"

definition FEATURE_NAMES :: "string list" where
  "FEATURE_NAMES = [''Standardized_Test_Score'', ''Average_Grade'', ''Attendance_Percentage'',
     ''Times_Late'', ''Participation_Rating'']"

section \<open>load_artifacts\<close>

text \<open>
  \<open>joblib.load\<close> is a parameter: a path gives the exception raised or the deserialised
  value, which is \<open>None\<close> when the file holds a pickled \<open>None\<close> and \<open>Some\<close> object
  otherwise. The function returns what was loaded as it is; the calls of \<open>st.error\<close> are
  returned as the list of messages shown.
\<close>

definition missing_message :: string where
  "missing_message = ''Error: Could not find '' @ [CHR 0x27] @ SCALER_FILENAME @ [CHR 0x27] @
     '' or '' @ [CHR 0x27] @ MODEL_FILENAME @ [CHR 0x27] @
     ''. Ensure they are in the app directory.''"

definition corrupt_message :: "pyexn \<Rightarrow> string" where
  "corrupt_message e = ''Error loading artifacts: '' @ exn_str e"

definition load_handler :: "pyexn \<Rightarrow> ('a option \<times> 'b option) \<times> string list" where
  "load_handler e =
     (if is_FileNotFoundError e then ((None, None), [missing_message])
      else ((None, None), [corrupt_message e]))"

definition load_artifacts ::
  "(string \<Rightarrow> pyexn + 'a option) \<Rightarrow> string \<Rightarrow> string \<Rightarrow>
     ('a option \<times> 'a option) \<times> string list" where
  "load_artifacts joblib_load scaler_path model_path =
     (case joblib_load scaler_path of
        Inl e \<Rightarrow> load_handler e
      | Inr scaler \<Rightarrow>
          (case joblib_load model_path of
             Inl e \<Rightarrow> load_handler e
           | Inr model \<Rightarrow> ((scaler, model), [])))"

section \<open>predict_slow_learner\<close>

text \<open>
  The scaler and the classifier are opaque objects: records of the methods the program
  calls, each returning its value or the exception it raises. A data frame is a list of
  rows; a cell is \<open>None\<close> where pandas stores NaN for a key the row's dict lacks.
\<close>

type_synonym frame = "rat option list list"

record scaler =
  transform :: "frame \<Rightarrow> pyexn + rat list list"

record classifier =
  predict :: "rat list list \<Rightarrow> pyexn + int list"
  predict_proba :: "rat list list \<Rightarrow> pyexn + float64 list list"

definition DataFrame :: "(string \<rightharpoonup> rat) list \<Rightarrow> string list \<Rightarrow> frame" where
  "DataFrame rows columns = map (\<lambda>row. map row columns) rows"

definition predict_slow_learner ::
  "(string \<rightharpoonup> rat) \<Rightarrow> scaler option \<Rightarrow> classifier option \<Rightarrow>
     pyexn + (int option \<times> float64 option)" where
  "predict_slow_learner data scaler_obj model_obj =
     (case scaler_obj of
        None \<Rightarrow> Inr (None, None)
      | Some sc \<Rightarrow>
     (case model_obj of
        None \<Rightarrow> Inr (None, None)
      | Some mdl \<Rightarrow>
     (let input_data = DataFrame [data] FEATURE_NAMES in
      case transform sc input_data of
        Inl e \<Rightarrow> Inl e
      | Inr input_data_scaled \<Rightarrow>
     (case predict mdl input_data_scaled of
        Inl e \<Rightarrow> Inl e
      | Inr labels \<Rightarrow>
     (case index labels 0 of
        Inl e \<Rightarrow> Inl e
      | Inr prediction \<Rightarrow>
     (case predict_proba mdl input_data_scaled of
        Inl e \<Rightarrow> Inl e
      | Inr probas \<Rightarrow>
     (case index probas 0 of
        Inl e \<Rightarrow> Inl e
      | Inr proba_row \<Rightarrow>
     (case index proba_row 1 of
        Inl e \<Rightarrow> Inl e
      | Inr probability \<Rightarrow> Inr (Some prediction, Some probability)))))))))"

text \<open>
  The ranges the input form gives its five widgets (\<open>min_value\<close>, \<open>max_value\<close>), the
  only place of the program where a range is checked; the count of times late has no
  upper bound.
\<close>

definition in_bounds :: "rat \<Rightarrow> rat \<Rightarrow> rat option \<Rightarrow> bool" where
  "in_bounds lo hi v = (case v of None \<Rightarrow> False | Some x \<Rightarrow> lo \<le> x \<and> x \<le> hi)"

definition form_ranges :: "(string \<rightharpoonup> rat) \<Rightarrow> bool" where
  "form_ranges data =
     (in_bounds 0 100 (data ''Standardized_Test_Score'') \<and>
      in_bounds 0 100 (data ''Average_Grade'') \<and>
      in_bounds 0 100 (data ''Attendance_Percentage'') \<and>
      (case data ''Times_Late'' of None \<Rightarrow> False | Some x \<Rightarrow> 0 \<le> x) \<and>
      in_bounds 1 5 (data ''Participation_Rating''))"

section \<open>get_remedial_suggestions\<close>

definition headline_prefix :: string where
  "headline_prefix = ''**Student identified as potentially needing support (Probability: ''"

definition headline_suffix :: string where
  "headline_suffix = '')**''"

definition headline :: "float64 \<Rightarrow> string" where
  "headline probability = headline_prefix @ format_percent 2 probability @ headline_suffix"

definition get_remedial_suggestions ::
  "int \<Rightarrow> float64 \<Rightarrow> rat \<Rightarrow> rat \<Rightarrow> rat \<Rightarrow> int \<Rightarrow> string list" where
  "get_remedial_suggestions prediction probability standardized_test_score average_grade
       attendance_percentage participation_rating =
     (let suggestions = [] in
      if prediction = 1 then
        let suggestions = suggestions @ [headline probability];
            suggestions = suggestions @ [''---''];
            suggestions = suggestions @ [''**Recommended Actions:**''];
            suggestions = suggestions @
              [''* Schedule a one-on-one meeting to discuss challenges and learning style.''];
            suggestions = suggestions @
              [''* Provide simplified explanations and break down complex topics.''];
            suggestions = suggestions @
              [''* Offer extra practice exercises tailored to weak areas.''];
            suggestions = suggestions @ [''* Utilize visual aids and hands-on activities.''];
            suggestions = suggestions @ [''* Encourage questions in a supportive environment.''];
            suggestions = suggestions @ [''* Recommend peer tutoring or study groups.''];
            suggestions = suggestions @
              [CHR 0x0A # ''**Observations & Targeted Suggestions:**''];
            triggered_specific = False;
            (suggestions, triggered_specific) =
              (if standardized_test_score < 45 then
                 (suggestions @
                    [''* *Observation:* Low Standardized Test Score.'',
                     ''    * *Suggestion:* Focus on foundational concepts for test topics.''],
                  True)
               else (suggestions, triggered_specific));
            (suggestions, triggered_specific) =
              (if average_grade < 70 then
                 (suggestions @
                    [''* *Observation:* Low Average Grade.'',
                     ''    * *Suggestion:* Review recent assignments for weaknesses.'',
                     ''    * *Suggestion:* Offer re-assessment or extra credit opportunities.''],
                  True)
               else (suggestions, triggered_specific));
            (suggestions, triggered_specific) =
              (if attendance_percentage < 85 then
                 (suggestions @
                    [''* *Observation:* Low Attendance.'',
                     ''    * *Suggestion:* Discuss barriers to attendance.''],
                  True)
               else (suggestions, triggered_specific));
            (suggestions, triggered_specific) =
              (if participation_rating \<le> 2 then
                 (suggestions @
                    [''* *Observation:* Low Class Participation.'',
                     ''    * *Suggestion:* Create low-pressure participation opportunities.'',
                     ''    * *Suggestion:* Reinforce participation attempts positively.''],
                  True)
               else (suggestions, triggered_specific));
            suggestions =
              (if \<not> triggered_specific then
                 suggestions @
                   [''* No specific low metrics triggered; focus on general strategies.'']
               else suggestions);
            suggestions = suggestions @ [CHR 0x0A # ''---''];
            suggestions = suggestions @
              [''**Follow Up:** Monitor progress and adjust strategies as needed.'']
        in suggestions
      else suggestions)"

text \<open>The parts of the list, named so that properties of the result can be stated.\<close>

definition preamble :: "float64 \<Rightarrow> string list" where
  "preamble probability =
     [headline probability,
      ''---'',
      ''**Recommended Actions:**'',
      ''* Schedule a one-on-one meeting to discuss challenges and learning style.'',
      ''* Provide simplified explanations and break down complex topics.'',
      ''* Offer extra practice exercises tailored to weak areas.'',
      ''* Utilize visual aids and hands-on activities.'',
      ''* Encourage questions in a supportive environment.'',
      ''* Recommend peer tutoring or study groups.'',
      CHR 0x0A # ''**Observations & Targeted Suggestions:**'']"

definition score_observation :: string where
  "score_observation = ''* *Observation:* Low Standardized Test Score.''"

definition score_block :: "string list" where
  "score_block =
     [score_observation,
      ''    * *Suggestion:* Focus on foundational concepts for test topics.'']"

definition grade_block :: "string list" where
  "grade_block =
     [''* *Observation:* Low Average Grade.'',
      ''    * *Suggestion:* Review recent assignments for weaknesses.'',
      ''    * *Suggestion:* Offer re-assessment or extra credit opportunities.'']"

definition attendance_block :: "string list" where
  "attendance_block =
     [''* *Observation:* Low Attendance.'',
      ''    * *Suggestion:* Discuss barriers to attendance.'']"

definition participation_block :: "string list" where
  "participation_block =
     [''* *Observation:* Low Class Participation.'',
      ''    * *Suggestion:* Create low-pressure participation opportunities.'',
      ''    * *Suggestion:* Reinforce participation attempts positively.'']"

definition fallback_line :: string where
  "fallback_line = ''* No specific low metrics triggered; focus on general strategies.''"

definition closing :: "string list" where
  "closing =
     [CHR 0x0A # ''---'',
      ''**Follow Up:** Monitor progress and adjust strategies as needed.'']"

definition emit :: "bool \<Rightarrow> 'a list \<Rightarrow> 'a list" where
  "emit b xs = (if b then xs else [])"

text \<open>The blocks of the thresholds on grade, attendance and participation, in order.\<close>

definition other_blocks :: "rat \<Rightarrow> rat \<Rightarrow> int \<Rightarrow> string list" where
  "other_blocks average_grade attendance_percentage participation_rating =
     emit (average_grade < 70) grade_block @
     emit (attendance_percentage < 85) attendance_block @
     emit (participation_rating \<le> 2) participation_block"

section \<open>Recognising a percentage, and the inputs used as examples\<close>

definition is_digit :: "char \<Rightarrow> bool" where
  "is_digit c = (c \<in> set ''0123456789'')"

text \<open>
  \<open>is_percentage k str\<close>: \<open>str\<close> is an optional minus sign, one or more digits, a point,
  exactly \<open>k\<close> digits and a percent sign.
\<close>

definition is_percentage :: "nat \<Rightarrow> string \<Rightarrow> bool" where
  "is_percentage k str =
     (let body = (case str of [] \<Rightarrow> [] | c # cs \<Rightarrow> if c = CHR ''-'' then cs else c # cs);
          rest = dropWhile is_digit body
      in takeWhile is_digit body \<noteq> [] \<and>
         (case rest of
            [] \<Rightarrow> False
          | c # cs \<Rightarrow>
              c = CHR ''.'' \<and> length (takeWhile is_digit cs) = k \<and>
              dropWhile is_digit cs = ''%''))"

text \<open>What stands between the fixed prefix and the fixed suffix of a headline.\<close>

definition headline_percent :: "string \<Rightarrow> string" where
  "headline_percent h =
     drop (length headline_prefix) (take (length h - length headline_suffix) h)"

text \<open>A double is a probability when it is finite and its value lies in [0, 1].\<close>

fun is_probability :: "float64 \<Rightarrow> bool" where
  "is_probability (Finite s m e) =
     ((m = 0 \<or> \<not> s) \<and> (if 0 \<le> e then m * 2 ^ nat e \<le> 1 else m \<le> 2 ^ nat (- e)))"
| "is_probability (Infinity s) = False"
| "is_probability NaN = False"

definition one_half :: float64 where
  "one_half = Finite False 1 (- 1)"

definition example_scaler :: scaler where
  "example_scaler =
     \<lparr>transform = (\<lambda>X. Inr (map (map (\<lambda>c. case c of None \<Rightarrow> 0 | Some v \<Rightarrow> v / 100)) X))\<rparr>"

definition example_classifier :: classifier where
  "example_classifier =
     \<lparr>predict = (\<lambda>X. Inr (map (\<lambda>row. if sum_list row < 2 then 1 else 0) X)),
      predict_proba = (\<lambda>X. Inr (map (\<lambda>row.
         if sum_list row < 2 then [Finite False 1 (- 2), Finite False 3 (- 2)]
         else [Finite False 3 (- 2), Finite False 1 (- 2)]) X))\<rparr>"

definition out_of_range_data :: "string \<rightharpoonup> rat" where
  "out_of_range_data =
     [''Standardized_Test_Score'' \<mapsto> 150, ''Average_Grade'' \<mapsto> - 20,
      ''Attendance_Percentage'' \<mapsto> 300, ''Times_Late'' \<mapsto> - 4,
      ''Participation_Rating'' \<mapsto> 9]"

text \<open>A scaler file that does not unpickle, beside a classifier file that is not there.\<close>

definition corrupt_then_missing :: "string \<Rightarrow> pyexn + nat option" where
  "corrupt_then_missing path =
     (if path = ''scaler.joblib'' then Inl (OtherException ''invalid load key'')
      else Inl (FileNotFoundError ''No such file or directory''))"



section \<open>Properties of get_remedial_suggestions\<close>

declare bitlen.simps [simp del]
declare dec.simps [simp del]
declare frac_digits.simps [simp del]

lemma suggestions_positive:
  "get_remedial_suggestions 1 p s g a r =
     preamble p @ emit (s < 45) score_block @ other_blocks g a r @
     emit (\<not> (s < 45 \<or> g < 70 \<or> a < 85 \<or> r \<le> 2)) [fallback_line] @ closing"
  by (simp add: get_remedial_suggestions_def preamble_def emit_def other_blocks_def
      score_block_def score_observation_def grade_block_def attendance_block_def
      participation_block_def fallback_line_def closing_def)

lemma length_preamble: "length (preamble p) = 10"
  by (simp add: preamble_def)

lemma length_other_blocks:
  "length (other_blocks g a r) =
     (if g < 70 then 3 else 0) + (if a < 85 then 2 else 0) + (if r \<le> 2 then 3 else 0)"
  by (simp add: other_blocks_def emit_def grade_block_def attendance_block_def
      participation_block_def)

lemma fallback_notin_preamble: "fallback_line \<notin> set (preamble p)"
  by (simp add: preamble_def fallback_line_def headline_def headline_prefix_def)

lemma fallback_notin_score_block: "fallback_line \<notin> set score_block"
  by (simp add: fallback_line_def score_block_def score_observation_def)

lemma fallback_notin_other_blocks: "fallback_line \<notin> set (other_blocks g a r)"
  by (simp add: fallback_line_def other_blocks_def emit_def grade_block_def
      attendance_block_def participation_block_def)

lemma fallback_notin_closing: "fallback_line \<notin> set closing"
  by (simp add: fallback_line_def closing_def)

lemma score_observation_notin_preamble: "score_observation \<notin> set (preamble p)"
  by (simp add: preamble_def score_observation_def headline_def headline_prefix_def)

lemma score_observation_notin_other_blocks: "score_observation \<notin> set (other_blocks g a r)"
  by (simp add: score_observation_def other_blocks_def emit_def grade_block_def
      attendance_block_def participation_block_def)

lemma score_observation_notin_closing: "score_observation \<notin> set closing"
  by (simp add: score_observation_def closing_def)

lemma count_score_block: "count_list score_block score_observation = 1"
  by (simp add: score_block_def score_observation_def)

lemma count_absent: "x \<notin> set xs \<Longrightarrow> count_list xs x = 0"
  by (simp add: count_list_0_iff)

text \<open>
  C3. Whatever the probability and the four feature values are, a prediction other than 1
  gives the empty list.
\<close>

theorem no_suggestions_unless_positive:
  "prediction \<noteq> 1 \<Longrightarrow> get_remedial_suggestions prediction p s g a r = []"
  by (simp add: get_remedial_suggestions_def)

theorem no_suggestions_unless_positive_witness:
  "(0::int) \<noteq> 1 \<and> get_remedial_suggestions 0 (Finite False 1 (- 2)) 90 95 98 5 = []"
  using no_suggestions_unless_positive [of 0 "Finite False 1 (- 2)" 90 95 98 5] by simp

text \<open>
  C10. For prediction 1 the list has 12 fixed lines (ten of the preamble, two closing
  ones), 2, 3, 2 and 3 lines for the score, grade, attendance and participation
  thresholds that hold, and one more line when none of them holds.
\<close>

theorem suggestions_length:
  "length (get_remedial_suggestions 1 p s g a r) =
     12 + 2 * (if s < 45 then 1 else 0) + 3 * (if g < 70 then 1 else 0) +
     2 * (if a < 85 then 1 else 0) + 3 * (if r \<le> 2 then 1 else 0) +
     (if \<not> (s < 45 \<or> g < 70 \<or> a < 85 \<or> r \<le> 2) then 1 else 0)"
  by (simp add: suggestions_positive length_preamble length_other_blocks emit_def
      score_block_def closing_def)

text \<open>
  C4. For prediction 1 the four observations are decided one by one, each by its own
  threshold, and appear in the order score, grade, attendance, participation between the
  preamble and the closing lines. At score 30, grade 60, attendance 80, participation 1
  the list is the preamble, the four blocks in that order and the closing lines, with no
  fallback line.
\<close>

theorem observations_independent_in_order:
  "get_remedial_suggestions 1 p s g a r =
     preamble p @ emit (s < 45) score_block @ emit (g < 70) grade_block @
     emit (a < 85) attendance_block @ emit (r \<le> 2) participation_block @
     emit (\<not> (s < 45 \<or> g < 70 \<or> a < 85 \<or> r \<le> 2)) [fallback_line] @ closing
   \<and> get_remedial_suggestions 1 p 30 60 80 1 =
     preamble p @ score_block @ grade_block @ attendance_block @ participation_block @ closing
   \<and> fallback_line \<notin> set (get_remedial_suggestions 1 p 30 60 80 1)"
proof -
  have general: "get_remedial_suggestions 1 p s g a r =
     preamble p @ emit (s < 45) score_block @ emit (g < 70) grade_block @
     emit (a < 85) attendance_block @ emit (r \<le> 2) participation_block @
     emit (\<not> (s < 45 \<or> g < 70 \<or> a < 85 \<or> r \<le> 2)) [fallback_line] @ closing"
    for s g a r
    by (simp add: suggestions_positive other_blocks_def)
  have all_four: "get_remedial_suggestions 1 p 30 60 80 1 =
     preamble p @ score_block @ grade_block @ attendance_block @ participation_block @ closing"
    by (simp add: general emit_def)
  have "fallback_line \<notin> set (preamble p)"
    by (simp add: preamble_def fallback_line_def headline_def headline_prefix_def)
  then have "fallback_line \<notin> set (get_remedial_suggestions 1 p 30 60 80 1)"
    unfolding all_four
    by (simp add: fallback_line_def score_block_def score_observation_def grade_block_def
        attendance_block_def participation_block_def closing_def)
  with general all_four show ?thesis by blast
qed

text \<open>
  C6. For prediction 1 the fallback line is in the list exactly when none of the four
  thresholds holds, and then it is there once.
\<close>

theorem fallback_iff_no_threshold:
  "(fallback_line \<in> set (get_remedial_suggestions 1 p s g a r)) =
     (\<not> (s < 45 \<or> g < 70 \<or> a < 85 \<or> r \<le> 2))
   \<and> count_list (get_remedial_suggestions 1 p s g a r) fallback_line =
     (if s < 45 \<or> g < 70 \<or> a < 85 \<or> r \<le> 2 then 0 else 1)"
proof -
  note absent = fallback_notin_preamble [of p] fallback_notin_score_block
    fallback_notin_other_blocks [of g a r] fallback_notin_closing
  have member: "(fallback_line \<in> set (get_remedial_suggestions 1 p s g a r)) =
     (\<not> (s < 45 \<or> g < 70 \<or> a < 85 \<or> r \<le> 2))"
    using absent by (simp add: suggestions_positive emit_def)
  have "count_list (get_remedial_suggestions 1 p s g a r) fallback_line =
     (if s < 45 \<or> g < 70 \<or> a < 85 \<or> r \<le> 2 then 0 else 1)"
    using absent by (simp add: suggestions_positive emit_def count_absent)
  with member show ?thesis by blast
qed

text \<open>
  C5, as the code has it. With prediction 1 and grade, attendance and participation
  fixed, a score of 45 or more gives the preamble, the blocks of the other thresholds
  (the fallback line when there is none) and the closing lines; a score below 45 gives
  the preamble, the score block, the same other blocks and the closing lines, without a
  fallback line. The score observation is in the second list once and not in the first.
\<close>

theorem score_below_45_adds_block:
  "45 \<le> s_hi \<Longrightarrow> s_lo < 45 \<Longrightarrow>
     get_remedial_suggestions 1 p s_hi g a r =
       preamble p @ other_blocks g a r @
       emit (\<not> (g < 70 \<or> a < 85 \<or> r \<le> 2)) [fallback_line] @ closing
   \<and> get_remedial_suggestions 1 p s_lo g a r =
       preamble p @ score_block @ other_blocks g a r @ closing
   \<and> count_list (get_remedial_suggestions 1 p s_lo g a r) score_observation = 1
   \<and> count_list (get_remedial_suggestions 1 p s_hi g a r) score_observation = 0"
proof -
  assume hi: "45 \<le> s_hi" and lo: "s_lo < 45"
  note absent = score_observation_notin_preamble [of p]
    score_observation_notin_other_blocks [of g a r] score_observation_notin_closing
  have not_fallback: "score_observation \<noteq> fallback_line"
    by (simp add: score_observation_def fallback_line_def)
  have out_hi: "get_remedial_suggestions 1 p s_hi g a r =
       preamble p @ other_blocks g a r @
       emit (\<not> (g < 70 \<or> a < 85 \<or> r \<le> 2)) [fallback_line] @ closing"
    using hi by (simp add: suggestions_positive emit_def)
  have out_lo: "get_remedial_suggestions 1 p s_lo g a r =
       preamble p @ score_block @ other_blocks g a r @ closing"
    using lo by (simp add: suggestions_positive emit_def)
  have once: "count_list (get_remedial_suggestions 1 p s_lo g a r) score_observation = 1"
    unfolding out_lo using absent by (simp add: count_absent count_score_block)
  have never: "count_list (get_remedial_suggestions 1 p s_hi g a r) score_observation = 0"
    unfolding out_hi using absent not_fallback by (simp add: count_absent emit_def)
  from out_hi out_lo once never show ?thesis by blast
qed

theorem score_below_45_adds_block_witness:
  "(45::rat) \<le> 50 \<and> (40::rat) < 45
   \<and> get_remedial_suggestions 1 one_half 50 60 98 5 =
       preamble one_half @ grade_block @ closing
   \<and> get_remedial_suggestions 1 one_half 40 60 98 5 =
       preamble one_half @ score_block @ grade_block @ closing
   \<and> count_list (get_remedial_suggestions 1 one_half 40 60 98 5) score_observation = 1
   \<and> count_list (get_remedial_suggestions 1 one_half 50 60 98 5) score_observation = 0"
proof -
  have hi: "(45::rat) \<le> 50" and lo: "(40::rat) < 45"
    by simp_all
  have others: "other_blocks 60 98 5 = grade_block"
    by (simp add: other_blocks_def emit_def)
  have none: "emit (\<not> ((60::rat) < 70 \<or> (98::rat) < 85 \<or> (5::int) \<le> 2)) [fallback_line] = []"
    by (simp add: emit_def)
  note at_60_98_5 = score_below_45_adds_block [OF hi lo, of one_half 60 98 5,
      unfolded others none append_Nil]
  from hi lo at_60_98_5 show ?thesis by blast
qed

theorem score_crossing_removes_fallback:
  "length (get_remedial_suggestions 1 one_half 40 95 98 5) \<noteq>
     length (get_remedial_suggestions 1 one_half 50 95 98 5) + length score_block
   \<and> get_remedial_suggestions 1 one_half 40 95 98 5 \<noteq>
     take 10 (get_remedial_suggestions 1 one_half 50 95 98 5) @ score_block @
     drop 10 (get_remedial_suggestions 1 one_half 50 95 98 5)
   \<and> fallback_line \<in> set (get_remedial_suggestions 1 one_half 50 95 98 5)
   \<and> fallback_line \<notin> set (get_remedial_suggestions 1 one_half 40 95 98 5)"
proof -
  have out_hi: "get_remedial_suggestions 1 one_half 50 95 98 5 =
      preamble one_half @ [fallback_line] @ closing"
    by (simp add: suggestions_positive emit_def other_blocks_def)
  have out_lo: "get_remedial_suggestions 1 one_half 40 95 98 5 =
      preamble one_half @ score_block @ closing"
    by (simp add: suggestions_positive emit_def other_blocks_def)
  have len: "length (get_remedial_suggestions 1 one_half 40 95 98 5) \<noteq>
     length (get_remedial_suggestions 1 one_half 50 95 98 5) + length score_block"
    unfolding out_hi out_lo by (simp add: length_preamble)
  have "length (take 10 (get_remedial_suggestions 1 one_half 50 95 98 5) @ score_block @
     drop 10 (get_remedial_suggestions 1 one_half 50 95 98 5)) =
     length (get_remedial_suggestions 1 one_half 50 95 98 5) + length score_block"
    by simp
  with len have differs: "get_remedial_suggestions 1 one_half 40 95 98 5 \<noteq>
     take 10 (get_remedial_suggestions 1 one_half 50 95 98 5) @ score_block @
     drop 10 (get_remedial_suggestions 1 one_half 50 95 98 5)"
    by metis
  have present: "fallback_line \<in> set (get_remedial_suggestions 1 one_half 50 95 98 5)"
    unfolding out_hi by simp
  have gone: "fallback_line \<notin> set (get_remedial_suggestions 1 one_half 40 95 98 5)"
    unfolding out_lo
    using fallback_notin_preamble [of one_half] fallback_notin_score_block
      fallback_notin_closing by simp
  from len differs present gone show ?thesis by blast
qed

section \<open>Properties of predict_slow_learner\<close>

text \<open>
  C7. Whatever the features are, when the scaler or the classifier is \<open>None\<close> the call
  returns the pair \<open>(None, None)\<close>; it raises nothing.
\<close>

theorem predict_without_artifacts:
  "scaler_obj = None \<or> model_obj = None \<Longrightarrow>
     predict_slow_learner data scaler_obj model_obj = Inr (None, None)"
  by (auto simp add: predict_slow_learner_def split: option.splits)

theorem predict_without_artifacts_witness:
  "(None = (None :: scaler option) \<or> Some example_classifier = None)
   \<and> predict_slow_learner out_of_range_data None (Some example_classifier) = Inr (None, None)"
  using predict_without_artifacts [of None "Some example_classifier" out_of_range_data]
  by simp

text \<open>
  C2, as the code has it. The function checks no range: with a scaler and a classifier
  present, the row of the raw values in the order of \<open>FEATURE_NAMES\<close> goes to the scaler
  as it is, and when the scaler and the classifier answer (a first label, a first row of
  two or more probabilities) the result is that label with the second probability.
\<close>

theorem predict_checks_no_range:
  "transform sc [map data FEATURE_NAMES] = Inr X \<Longrightarrow>
   predict mdl X = Inr (label # labels) \<Longrightarrow>
   predict_proba mdl X = Inr ((p0 # p1 # ps) # rows) \<Longrightarrow>
     predict_slow_learner data (Some sc) (Some mdl) = Inr (Some label, Some p1)"
  by (simp add: predict_slow_learner_def DataFrame_def index_def)

lemma example_row:
  "map out_of_range_data FEATURE_NAMES = [Some 150, Some (- 20), Some 300, Some (- 4), Some 9]"
  by (simp add: out_of_range_data_def FEATURE_NAMES_def)

lemma example_transform:
  "transform example_scaler [map out_of_range_data FEATURE_NAMES] =
     Inr [[3 / 2, - (1 / 5), 3, - (1 / 25), 9 / 100]]"
  by (simp add: example_row example_scaler_def)

lemma example_predict:
  "predict example_classifier [[3 / 2, - (1 / 5), 3, - (1 / 25), 9 / 100]] = Inr [0]"
  by (simp add: example_classifier_def)

lemma example_predict_proba:
  "predict_proba example_classifier [[3 / 2, - (1 / 5), 3, - (1 / 25), 9 / 100]] =
     Inr [[Finite False 3 (- 2), Finite False 1 (- 2)]]"
  by (simp add: example_classifier_def)

theorem predict_checks_no_range_witness:
  "transform example_scaler [map out_of_range_data FEATURE_NAMES] =
     Inr [[3 / 2, - (1 / 5), 3, - (1 / 25), 9 / 100]]
   \<and> predict example_classifier [[3 / 2, - (1 / 5), 3, - (1 / 25), 9 / 100]] = Inr [0]
   \<and> predict_proba example_classifier [[3 / 2, - (1 / 5), 3, - (1 / 25), 9 / 100]] =
     Inr [[Finite False 3 (- 2), Finite False 1 (- 2)]]
   \<and> predict_slow_learner out_of_range_data (Some example_scaler) (Some example_classifier) =
     Inr (Some 0, Some (Finite False 1 (- 2)))"
  using predict_checks_no_range [OF example_transform example_predict example_predict_proba]
    example_transform example_predict example_predict_proba
  by blast

text \<open>
  A score of 150, a grade of -20, an attendance of 300, -4 times late and a participation
  of 9 are outside the ranges of the form, and the call returns a label and a probability.
\<close>

theorem out_of_range_is_predicted:
  "\<not> form_ranges out_of_range_data
   \<and> predict_slow_learner out_of_range_data (Some example_scaler) (Some example_classifier) =
     Inr (Some 0, Some (Finite False 1 (- 2)))"
proof -
  have "\<not> form_ranges out_of_range_data"
    by (simp add: form_ranges_def in_bounds_def out_of_range_data_def)
  moreover have "predict_slow_learner out_of_range_data (Some example_scaler)
      (Some example_classifier) = Inr (Some 0, Some (Finite False 1 (- 2)))"
    by (simp add: predict_slow_learner_def DataFrame_def index_def example_transform
        example_predict example_predict_proba)
  ultimately show ?thesis by blast
qed

section \<open>Properties of load_artifacts\<close>


lemma load_handler_message:
  "snd (load_handler e) =
     [if is_FileNotFoundError e then missing_message else corrupt_message e]"
  by (simp add: load_handler_def)




text \<open>
  C9, as the code has it. The load that raises first decides what is signalled, the
  scaler being loaded before the classifier and the classifier only when the scaler
  loaded: the result is \<open>(None, None)\<close>, with the message that names the two expected
  file names when that exception is a \<open>FileNotFoundError\<close>, and with the message that
  carries the text of the exception otherwise.
\<close>

theorem first_failure_decides_signal:
  "joblib_load scaler_path = Inl e \<or>
   (joblib_load scaler_path = Inr loaded \<and> joblib_load model_path = Inl e) \<Longrightarrow>
     load_artifacts joblib_load scaler_path model_path =
       ((None, None),
        [if is_FileNotFoundError e
         then ''Error: Could not find '' @ [CHR 0x27] @ ''scaler.joblib'' @ [CHR 0x27] @
              '' or '' @ [CHR 0x27] @ ''random_forest_model.joblib'' @ [CHR 0x27] @
              ''. Ensure they are in the app directory.''
         else ''Error loading artifacts: '' @ exn_str e])"
  by (auto simp add: load_artifacts_def load_handler_def missing_message_def
      corrupt_message_def SCALER_FILENAME_def MODEL_FILENAME_def)

theorem first_failure_decides_signal_witness:
  "corrupt_then_missing ''scaler.joblib'' = Inl (OtherException ''invalid load key'')
   \<and> load_artifacts corrupt_then_missing ''scaler.joblib'' ''random_forest_model.joblib'' =
       ((None, None), [''Error loading artifacts: invalid load key''])"
proof -
  have first: "corrupt_then_missing ''scaler.joblib'' = Inl (OtherException ''invalid load key'')"
    by (simp add: corrupt_then_missing_def)
  from first_failure_decides_signal [of corrupt_then_missing "''scaler.joblib''"
      "OtherException ''invalid load key''" _ "''random_forest_model.joblib''"] first
  show ?thesis by simp
qed

text \<open>
  The classifier file is absent and the scaler file does not unpickle: the result is
  \<open>(None, None)\<close>, and the message shown is the one of the failed load, not the one that
  names the missing files.
\<close>

theorem absent_file_reported_as_load_error:
  "corrupt_then_missing ''random_forest_model.joblib'' =
     Inl (FileNotFoundError ''No such file or directory'')
   \<and> snd (load_artifacts corrupt_then_missing ''scaler.joblib''
        ''random_forest_model.joblib'') = [''Error loading artifacts: invalid load key'']
   \<and> snd (load_artifacts corrupt_then_missing ''scaler.joblib''
        ''random_forest_model.joblib'') \<noteq> [missing_message]"
  by (simp add: corrupt_then_missing_def load_artifacts_def load_handler_def
      corrupt_message_def missing_message_def)

section \<open>The headline\<close>

lemma is_digit_digit_char: "is_digit (digit_char d)"
proof -
  have "d mod 10 < length ''0123456789''" by simp
  then have "''0123456789'' ! (d mod 10) \<in> set ''0123456789''" by (rule nth_mem)
  then show ?thesis by (simp only: is_digit_def digit_char_def)
qed

lemma not_digit_minus: "is_digit c \<Longrightarrow> c \<noteq> CHR ''-''"
  by (auto simp add: is_digit_def)

lemma not_digit_point: "\<not> is_digit CHR ''.''"
  by (simp add: is_digit_def)

lemma not_digit_percent: "\<not> is_digit CHR ''%''"
  by (simp add: is_digit_def)

lemma dec_digits: "c \<in> set (dec n) \<Longrightarrow> is_digit c"
proof (induction n arbitrary: c rule: dec.induct)
  case (1 n)
  show ?case
  proof (cases "n < 10")
    case True
    with "1.prems" show ?thesis by (simp add: dec.simps [of n] is_digit_digit_char)
  next
    case False
    with "1.prems" "1.IH" show ?thesis
      by (auto simp add: dec.simps [of n] is_digit_digit_char)
  qed
qed

lemma dec_nonempty: "dec n \<noteq> []"
  by (simp add: dec.simps [of n])

lemma frac_digits_zero: "frac_digits 0 n = []"
  by (simp add: frac_digits.simps [of 0 n])

lemma frac_digits_step:
  "0 < k \<Longrightarrow> frac_digits k n = frac_digits (k - 1) (n div 10) @ [digit_char (n mod 10)]"
  by (simp add: frac_digits.simps [of k n])

lemma frac_digits_length: "length (frac_digits k n) = k"
proof (induction k arbitrary: n)
  case 0
  show ?case by (simp add: frac_digits_zero)
next
  case (Suc k)
  then show ?case by (simp add: frac_digits_step)
qed

lemma frac_digits_digits: "c \<in> set (frac_digits k n) \<Longrightarrow> is_digit c"
proof (induction k arbitrary: n)
  case 0
  then show ?case by (simp add: frac_digits_zero)
next
  case (Suc k)
  then show ?case by (auto simp add: frac_digits_step is_digit_digit_char)
qed

lemma percentage_shape:
  assumes ds: "ds \<noteq> []" "\<And>c. c \<in> set ds \<Longrightarrow> is_digit c"
    and fs: "\<And>c. c \<in> set fs \<Longrightarrow> is_digit c"
  shows "is_percentage (length fs) ((if s then ''-'' else []) @ ds @ ''.'' @ fs @ ''%'')"
proof -
  obtain d ds' where split: "ds = d # ds'" using ds(1) by (cases ds) auto
  have d: "d \<noteq> CHR ''-''" using ds(2) [of d] split by (simp add: not_digit_minus)
  have body: "(case (if s then ''-'' else []) @ ds @ ''.'' @ fs @ ''%'' of [] \<Rightarrow> []
      | c # cs \<Rightarrow> if c = CHR ''-'' then cs else c # cs) = ds @ ''.'' @ fs @ ''%''"
    using d by (simp add: split)
  have tw: "takeWhile is_digit (ds @ ''.'' @ fs @ ''%'') = ds"
    using ds(2) by (simp add: takeWhile_append2 not_digit_point)
  have dw: "dropWhile is_digit (ds @ ''.'' @ fs @ ''%'') = ''.'' @ fs @ ''%''"
    using ds(2) by (simp add: dropWhile_append2 not_digit_point)
  have tw2: "takeWhile is_digit (fs @ ''%'') = fs"
    using fs by (simp add: takeWhile_append2 not_digit_percent)
  have dw2: "dropWhile is_digit (fs @ ''%'') = ''%''"
    using fs by (simp add: dropWhile_append2 not_digit_percent)
  show ?thesis
    unfolding is_percentage_def body Let_def tw dw
    using ds(1) tw2 dw2 by simp
qed

lemma format_f_shape:
  "0 < prec \<Longrightarrow> is_percentage prec (format_f prec (Finite s m e) @ ''%'')"
proof -
  assume prec: "0 < prec"
  define n where "n = (if 0 \<le> e then m * 2 ^ nat e * 10 ^ prec
               else round_half_even (m * 10 ^ prec) (2 ^ nat (- e)))"
  have "format_f prec (Finite s m e) @ ''%'' =
      (if s then ''-'' else []) @ dec (n div 10 ^ prec) @ ''.'' @
      frac_digits prec (n mod 10 ^ prec) @ ''%''"
    using prec by (simp add: n_def Let_def)
  moreover have "is_percentage (length (frac_digits prec (n mod 10 ^ prec)))
      ((if s then ''-'' else []) @ dec (n div 10 ^ prec) @ ''.'' @
      frac_digits prec (n mod 10 ^ prec) @ ''%'')"
    by (rule percentage_shape) (simp_all add: dec_nonempty dec_digits frac_digits_digits)
  ultimately show ?thesis by (simp add: frac_digits_length)
qed

lemma bitlen_zero: "bitlen 0 = 0"
  by (simp add: bitlen.simps [of 0])

lemma bitlen_step: "0 < n \<Longrightarrow> bitlen n = Suc (bitlen (n div 2))"
  by (simp add: bitlen.simps [of n])

lemma bitlen_bound: "n < 2 ^ b \<Longrightarrow> bitlen n \<le> b"
proof (induction b arbitrary: n)
  case 0
  then show ?case by (simp add: bitlen_zero)
next
  case (Suc b)
  show ?case
  proof (cases "n = 0")
    case True
    then show ?thesis by (simp add: bitlen_zero)
  next
    case False
    from Suc.prems have "n div 2 < 2 ^ b" by auto
    then have "bitlen (n div 2) \<le> b" by (rule Suc.IH)
    with False show ?thesis by (simp add: bitlen_step)
  qed
qed

lemma round_half_even_le: "round_half_even a b \<le> a div b + 1"
  by (simp add: round_half_even_def Let_def)

lemma scaled_bitlen:
  assumes M: "M \<le> 100 * 2 ^ E" and k: "k \<le> E"
  shows "bitlen (round_half_even M (2 ^ k)) \<le> E - k + 8"
proof -
  have "(2::nat) ^ E = 2 ^ (E - k) * 2 ^ k"
    using k by (simp add: power_add [symmetric])
  then have "M \<le> (100 * 2 ^ (E - k)) * 2 ^ k"
    using M by simp
  then have "M div 2 ^ k \<le> ((100 * 2 ^ (E - k)) * 2 ^ k) div 2 ^ k"
    by (rule div_le_mono)
  then have "M div 2 ^ k \<le> 100 * 2 ^ (E - k)"
    by simp
  with round_half_even_le [of M "2 ^ k"]
  have "round_half_even M (2 ^ k) \<le> 100 * 2 ^ (E - k) + 1"
    by linarith
  also have "\<dots> < 256 * 2 ^ (E - k)"
  proof -
    have "(1::nat) \<le> 2 ^ (E - k)" by simp
    then show ?thesis by linarith
  qed
  also have "\<dots> = 2 ^ (E - k + 8)"
    by (simp add: power_add)
  finally show ?thesis by (rule bitlen_bound)
qed

lemma probability_times_100_finite:
  assumes "is_probability (Finite s m e)"
  shows "\<exists>m' e'. float_mul100 (Finite s m e) = Finite s m' e'"
proof -
  define E where "E = nat (- e)"
  define k where "k = nat (max (int (bitlen (m * 100)) - 53) (- 1074 - e))"
  have M: "m * 100 \<le> 100 * 2 ^ E"
  proof (cases "0 \<le> e")
    case True
    with assms have upper: "m * 2 ^ nat e \<le> 1" by simp
    have "m * 1 \<le> m * 2 ^ nat e" by (rule mult_le_mono2) simp
    then have "m \<le> m * 2 ^ nat e" by (simp only: mult_1_right)
    from this upper have "m \<le> 1" by (rule order_trans)
    moreover have "(1::nat) \<le> 2 ^ E" by simp
    ultimately have "m \<le> 2 ^ E" by (rule order_trans)
    then show ?thesis by simp
  next
    case False
    with assms have "m \<le> 2 ^ E" by (simp add: E_def)
    then show ?thesis by simp
  qed
  then have "m * 100 < 2 ^ (E + 7)"
  proof -
    have "(100::nat) * 2 ^ E < 128 * 2 ^ E" by simp
    also have "\<dots> = 2 ^ (E + 7)" by (simp add: power_add)
    finally show ?thesis using M by linarith
  qed
  then have bl: "bitlen (m * 100) \<le> E + 7" by (rule bitlen_bound)
  have kE: "k \<le> E"
    using bl by (simp add: k_def E_def)
  have pos: "0 \<le> e \<Longrightarrow> e = 0 \<or> m = 0"
  proof -
    assume nonneg: "0 \<le> e"
    show "e = 0 \<or> m = 0"
    proof (rule ccontr)
      assume "\<not> (e = 0 \<or> m = 0)"
      then have e: "0 < nat e" and m: "1 \<le> m" using nonneg by auto
      have "(2::nat) ^ 1 \<le> 2 ^ nat e" using e by (intro power_increasing) auto
      then have "1 * 2 \<le> m * 2 ^ nat e" using m by (intro mult_le_mono) auto
      moreover from assms nonneg have "m * 2 ^ nat e \<le> 1" by simp
      ultimately show False by simp
    qed
  qed
  have "bitlen (round_half_even (m * 100) (2 ^ k)) \<le> E - k + 8"
    using M kE by (rule scaled_bitlen)
  then have "round_half_even (m * 100) (2 ^ k) \<noteq> 0 \<longrightarrow>
      int (bitlen (round_half_even (m * 100) (2 ^ k))) + (e + int k) \<le> 1024"
  proof (cases "0 \<le> e")
    case True
    from pos [OF True] show ?thesis
    proof
      assume "e = 0"
      with kE \<open>bitlen (round_half_even (m * 100) (2 ^ k)) \<le> E - k + 8\<close>
      show ?thesis by (simp add: E_def)
    next
      assume "m = 0"
      then show ?thesis by (simp add: round_half_even_def)
    qed
  next
    case False
    then have "e = - int E" by (simp add: E_def)
    moreover have "int (bitlen (round_half_even (m * 100) (2 ^ k))) \<le> int E - int k + 8"
      using kE \<open>bitlen (round_half_even (m * 100) (2 ^ k)) \<le> E - k + 8\<close> by linarith
    ultimately show ?thesis by linarith
  qed
  then show ?thesis
    by (auto simp add: round_to_float64_def Let_def k_def)
qed

lemma probability_percentage:
  "is_probability p \<Longrightarrow> 0 < prec \<Longrightarrow> is_percentage prec (format_percent prec p)"
proof -
  assume p: "is_probability p" and prec: "0 < prec"
  from p obtain s m e where shape: "p = Finite s m e"
    by (cases p) auto
  with p obtain m' e' where "float_mul100 p = Finite s m' e'"
    using probability_times_100_finite [of s m e] by auto
  with prec show ?thesis
    by (simp add: format_percent_def format_f_shape del: format_f.simps)
qed

lemma headline_percent_headline: "headline_percent (headline p) = format_percent 2 p"
  by (simp add: headline_percent_def headline_def headline_prefix_def headline_suffix_def)

lemma hd_suggestions: "hd (get_remedial_suggestions 1 p s g a r) = headline p"
  by (simp add: suggestions_positive preamble_def)

lemma half_is_probability: "is_probability one_half"
  by (simp add: one_half_def)

lemma half_percent: "format_percent 2 one_half = ''50.00%''"
  by (simp add: format_percent_def one_half_def round_to_float64_def round_half_even_def
      bitlen.simps dec.simps frac_digits.simps digit_char_def Let_def)

lemma half_headline:
  "headline one_half =
     ''**Student identified as potentially needing support (Probability: 50.00%)**''"
  by (simp add: headline_def headline_prefix_def headline_suffix_def half_percent)

text \<open>
  C1, as the code has it. For prediction 1 and a probability in [0, 1] the list is not
  empty and its first line is the fixed headline text around the probability written by
  the format \<open>.2%\<close>: an optional sign, digits, a point, exactly two digits and a
  percent sign.
\<close>

theorem headline_has_two_decimals:
  "is_probability p \<Longrightarrow>
     get_remedial_suggestions 1 p s g a r \<noteq> []
   \<and> hd (get_remedial_suggestions 1 p s g a r) =
       headline_prefix @ format_percent 2 p @ headline_suffix
   \<and> headline_percent (hd (get_remedial_suggestions 1 p s g a r)) = format_percent 2 p
   \<and> is_percentage 2 (format_percent 2 p)"
proof -
  assume p: "is_probability p"
  have nonempty: "get_remedial_suggestions 1 p s g a r \<noteq> []"
    by (simp add: suggestions_positive preamble_def)
  have first: "hd (get_remedial_suggestions 1 p s g a r) =
      headline_prefix @ format_percent 2 p @ headline_suffix"
    by (simp add: hd_suggestions headline_def)
  have field: "headline_percent (hd (get_remedial_suggestions 1 p s g a r)) =
      format_percent 2 p"
    by (simp only: hd_suggestions headline_percent_headline)
  have "is_percentage 2 (format_percent 2 p)"
    using p by (rule probability_percentage) simp
  with nonempty first field show ?thesis by blast
qed

theorem headline_has_two_decimals_witness:
  "is_probability one_half
   \<and> get_remedial_suggestions 1 one_half 50 75 90 3 \<noteq> []
   \<and> hd (get_remedial_suggestions 1 one_half 50 75 90 3) =
       ''**Student identified as potentially needing support (Probability: 50.00%)**''
   \<and> headline_percent (hd (get_remedial_suggestions 1 one_half 50 75 90 3)) = ''50.00%''
   \<and> is_percentage 2 ''50.00%''"
proof -
  have whole: "headline_prefix @ ''50.00%'' @ headline_suffix =
      ''**Student identified as potentially needing support (Probability: 50.00%)**''"
    by (simp add: headline_prefix_def headline_suffix_def)
  note at_half = headline_has_two_decimals [OF half_is_probability, of 50 75 90 3,
      unfolded half_percent whole]
  from at_half half_is_probability show ?thesis by blast
qed

text \<open>
  At probability one half the headline reads 50.00%, which is not a percentage with one
  decimal place.
\<close>

theorem headline_not_one_decimal:
  "is_probability one_half
   \<and> hd (get_remedial_suggestions 1 one_half 50 75 90 3) =
       ''**Student identified as potentially needing support (Probability: 50.00%)**''
   \<and> headline_percent (hd (get_remedial_suggestions 1 one_half 50 75 90 3)) = ''50.00%''
   \<and> \<not> is_percentage 1 (headline_percent (hd (get_remedial_suggestions 1 one_half 50 75 90 3)))"
proof -
  have first: "hd (get_remedial_suggestions 1 one_half 50 75 90 3) =
      ''**Student identified as potentially needing support (Probability: 50.00%)**''"
    by (simp only: hd_suggestions half_headline)
  have field: "headline_percent (hd (get_remedial_suggestions 1 one_half 50 75 90 3)) =
      ''50.00%''"
    by (simp only: hd_suggestions headline_percent_headline half_percent)
  have "\<not> is_percentage 1 ''50.00%''"
    by (simp add: is_percentage_def is_digit_def)
  with first field half_is_probability show ?thesis by simp
qed

end
